theory Spec2Isabelle
  imports Complex_Main
begin

section \<open>Hospital data curation: the cleaning and validation engine\<close>

text \<open>
  A shallow embedding of \<^verbatim>\<open>src/utils.py\<close>, \<^verbatim>\<open>src/data_cleaner.py\<close> and
  \<^verbatim>\<open>src/validators.py\<close>. A pandas DataFrame is a list of column names together with a
  list of rows; a row carries one field for every column the cleaning and validation rules
  name. Columns the rules never name ride along unchanged and are left out.

  Cell types, per column:
  \<^item> identifier columns (\<^verbatim>\<open>patient_id\<close>, \<^verbatim>\<open>visit_id\<close>, \<^verbatim>\<open>staff_id\<close>): any type with
    equality; \<open>None\<close> is the missing marker NaN, which pandas' \<^verbatim>\<open>duplicated\<close> and
    \<^verbatim>\<open>isin\<close> treat as equal to itself;
  \<^item> text columns: an object column of Python strings, \<open>None\<close> for NaN (what
    \<^verbatim>\<open>read_csv\<close> produces for an empty field). Strings are ASCII text;
  \<^item> date columns: raw text, a parsed timestamp in nanoseconds since the epoch
    (\<^verbatim>\<open>datetime64[ns]\<close>), or the missing marker NaT;
  \<^item> numeric columns: integers, \<open>None\<close> for NaN.
  Logging and file output are left out. The private methods of the cleaner keep their names
  without the leading underscore; a reading of the clock (\<^verbatim>\<open>pd.Timestamp.now()\<close>) is a
  parameter of the function that takes it.
\<close>

subsection \<open>Errors\<close>

datatype error =
    IntCastingNaNError  \<comment> \<open>\<^verbatim>\<open>astype(int)\<close> on a series holding NaN (a ValueError)\<close>
  | ZeroDivisionError

subsection \<open>config.py\<close>

definition MAX_AGE :: int where "MAX_AGE = 120"
definition MIN_AGE :: int where "MIN_AGE = 0"
definition MAX_LOS_DAYS :: int where "MAX_LOS_DAYS = 365"
definition MIN_LOS_DAYS :: int where "MIN_LOS_DAYS = 0"

subsection \<open>Tabular record sets\<close>

datatype datetime = Text string | Timestamp int | NaT

record 'k row =
  patient_id :: "'k option"
  visit_id :: "'k option"
  staff_id :: "'k option"
  gender :: "string option"
  date_of_birth :: datetime
  age :: "int option"
  admission_date :: datetime
  discharge_date :: datetime
  length_of_stay :: "int option"
  icd_code :: "string option"
  icd_code_valid :: bool
  medication_name :: "string option"
  staff_name :: "string option"
  name :: "string option"

record 'k dataframe =
  columns :: "string list"
  rows :: "'k row list"

text \<open>\<^verbatim>\<open>col in df.columns\<close>\<close>

definition has_column :: "string \<Rightarrow> 'k dataframe \<Rightarrow> bool" where
  "has_column col df = (col \<in> set (columns df))"

text \<open>\<^verbatim>\<open>len(df)\<close>\<close>

definition len :: "'k dataframe \<Rightarrow> int" where
  "len df = int (length (rows df))"

text \<open>
  \<^verbatim>\<open>df[col] = values\<close>: the column is overwritten in place, or appended when new. The
  setter writes one cell into the row's field of that name.
\<close>

definition set_column ::
  "string \<Rightarrow> ('v \<Rightarrow> 'k row \<Rightarrow> 'k row) \<Rightarrow> 'v list \<Rightarrow> 'k dataframe \<Rightarrow> 'k dataframe" where
  "set_column col setter vals df =
     df\<lparr>columns := (if col \<in> set (columns df) then columns df else columns df @ [col]),
        rows := map2 setter vals (rows df)\<rparr>"

text \<open>\<^verbatim>\<open>df[mask]\<close>: the rows whose mask entry is true, in order.\<close>

definition select :: "bool list \<Rightarrow> 'a list \<Rightarrow> 'a list" where
  "select flags xs = map snd (filter fst (zip flags xs))"

definition boolean_index :: "bool list \<Rightarrow> 'k dataframe \<Rightarrow> 'k dataframe" where
  "boolean_index flags df = df\<lparr>rows := select flags (rows df)\<rparr>"

text \<open>
  \<^verbatim>\<open>duplicated(subset=..., keep='first')\<close> on the list of keys: an entry is true when the
  same key occurred in an earlier row.
\<close>

fun duplicated_from :: "'a list \<Rightarrow> 'a list \<Rightarrow> bool list" where
  "duplicated_from seen [] = []"
| "duplicated_from seen (k # ks) = (k \<in> set seen) # duplicated_from (k # seen) ks"

definition duplicated :: "'a list \<Rightarrow> bool list" where
  "duplicated ks = duplicated_from [] ks"

text \<open>\<^verbatim>\<open>series.fillna(value)\<close>\<close>

definition fillna :: "'a \<Rightarrow> 'a option list \<Rightarrow> 'a option list" where
  "fillna v cells = map (\<lambda>c. case c of None \<Rightarrow> Some v | Some x \<Rightarrow> Some x) cells"

subsection \<open>Dates\<close>

text \<open>
  \<^verbatim>\<open>pd.to_datetime(series, errors='coerce')\<close>, cell by cell. The date parser of pandas is a
  parameter: a partial map from text to nanoseconds since the epoch; text outside its domain
  is unparsable and is coerced to NaT. A cell that is already a timestamp is kept.
\<close>

fun to_datetime :: "(string \<rightharpoonup> int) \<Rightarrow> datetime \<Rightarrow> datetime" where
  "to_datetime parse (Text s) = (case parse s of None \<Rightarrow> NaT | Some t \<Rightarrow> Timestamp t)"
| "to_datetime parse (Timestamp t) = Timestamp t"
| "to_datetime parse NaT = NaT"

text \<open>
  Comparisons of datetime cells: false as soon as one side is NaT. (A \<open>Text\<close> cell never
  reaches a comparison: every date column is parsed before it is compared.)
\<close>

fun dt_less :: "datetime \<Rightarrow> datetime \<Rightarrow> bool" where
  "dt_less (Timestamp a) (Timestamp b) = (a < b)"
| "dt_less _ _ = False"

text \<open>Subtraction of datetime cells gives a timedelta in nanoseconds, NaT when a side is NaT.\<close>

fun dt_sub :: "datetime \<Rightarrow> datetime \<Rightarrow> int option" where
  "dt_sub (Timestamp a) (Timestamp b) = Some (a - b)"
| "dt_sub _ _ = None"

definition NS_PER_DAY :: int where
  "NS_PER_DAY = 86400000000000"

text \<open>\<^verbatim>\<open>.dt.days\<close>: the days component of a timedelta (rounded towards minus infinity), NaN for NaT.\<close>

definition dt_days :: "int option \<Rightarrow> int option" where
  "dt_days td = map_option (\<lambda>ns. ns div NS_PER_DAY) td"

text \<open>Comparisons of a numeric cell with a number: false on NaN.\<close>

fun num_lt :: "int option \<Rightarrow> int \<Rightarrow> bool" where
  "num_lt (Some x) c = (x < c)"
| "num_lt None c = False"

fun num_gt :: "int option \<Rightarrow> int \<Rightarrow> bool" where
  "num_gt (Some x) c = (x > c)"
| "num_gt None c = False"

fun num_ge :: "int option \<Rightarrow> int \<Rightarrow> bool" where
  "num_ge (Some x) c = (x \<ge> c)"
| "num_ge None c = False"

fun num_le :: "int option \<Rightarrow> int \<Rightarrow> bool" where
  "num_le (Some x) c = (x \<le> c)"
| "num_le None c = False"

subsection \<open>data_cleaner.py: the cleaner and its report\<close>

record cleaning_entry =
  dataset :: string
  initial_rows :: int
  final_rows :: int
  removed_rows :: int

record cleaner =
  cleaning_report :: "cleaning_entry list"

text \<open>\<^verbatim>\<open>self.cleaning_report.append({...})\<close>\<close>

definition append_report :: "string \<Rightarrow> int \<Rightarrow> int \<Rightarrow> cleaner \<Rightarrow> cleaner" where
  "append_report ds initial final self =
     self\<lparr>cleaning_report := cleaning_report self @
        [\<lparr>dataset = ds, initial_rows = initial, final_rows = final,
          removed_rows = initial - final\<rparr>]\<rparr>"

text \<open>\<^verbatim>\<open>clean_visits_data\<close>\<close>

definition clean_visits_data ::
  "(string \<rightharpoonup> int) \<Rightarrow> 'k dataframe \<Rightarrow> cleaner \<Rightarrow> 'k dataframe \<times> cleaner" where
  "clean_visits_data parse df0 self =
    (let initial = len df0;
         df1 = (if has_column ''admission_date'' df0
                then set_column ''admission_date'' (\<lambda>v r. r\<lparr>admission_date := v\<rparr>)
                       (map (\<lambda>r. to_datetime parse (admission_date r)) (rows df0)) df0
                else df0);
         df2 = (if has_column ''discharge_date'' df1
                then set_column ''discharge_date'' (\<lambda>v r. r\<lparr>discharge_date := v\<rparr>)
                       (map (\<lambda>r. to_datetime parse (discharge_date r)) (rows df1)) df1
                else df1);
         df3 = (if has_column ''admission_date'' df2 \<and> has_column ''discharge_date'' df2
                then (let invalid_dates =
                            map (\<lambda>r. dt_less (discharge_date r) (admission_date r)) (rows df2)
                      in boolean_index (map Not invalid_dates) df2)
                else df2);
         df4 = (if has_column ''admission_date'' df3 \<and> has_column ''discharge_date'' df3
                then (let dfl = set_column ''length_of_stay'' (\<lambda>v r. r\<lparr>length_of_stay := v\<rparr>)
                                  (map (\<lambda>r. dt_days (dt_sub (discharge_date r) (admission_date r)))
                                     (rows df3)) df3;
                          invalid_los =
                            map (\<lambda>r. num_lt (length_of_stay r) MIN_LOS_DAYS
                                      \<or> num_gt (length_of_stay r) MAX_LOS_DAYS) (rows dfl)
                      in boolean_index (map Not invalid_los) dfl)
                else df3);
         df5 = (if has_column ''visit_id'' df4
                then boolean_index (map Not (duplicated (map visit_id (rows df4)))) df4
                else df4);
         final = len df5
     in (df5, append_report ''visits'' initial final self))"

subsection \<open>Strings\<close>

text \<open>Character classes of Python's \<^verbatim>\<open>str\<close> methods, on ASCII.\<close>

definition is_space :: "char \<Rightarrow> bool" where
  "is_space c = (let n = (of_char c :: nat) in (9 \<le> n \<and> n \<le> 13) \<or> (28 \<le> n \<and> n \<le> 32))"

definition is_lower :: "char \<Rightarrow> bool" where
  "is_lower c = (let n = (of_char c :: nat) in 97 \<le> n \<and> n \<le> 122)"

definition is_upper :: "char \<Rightarrow> bool" where
  "is_upper c = (let n = (of_char c :: nat) in 65 \<le> n \<and> n \<le> 90)"

definition to_upper :: "char \<Rightarrow> char" where
  "to_upper c = (if is_lower c then char_of ((of_char c :: nat) - 32) else c)"

definition to_lower :: "char \<Rightarrow> char" where
  "to_lower c = (if is_upper c then char_of ((of_char c :: nat) + 32) else c)"

text \<open>\<^verbatim>\<open>s.strip()\<close>\<close>

definition str_strip :: "string \<Rightarrow> string" where
  "str_strip s = rev (dropWhile is_space (rev (dropWhile is_space s)))"

text \<open>\<^verbatim>\<open>s.upper()\<close> and \<^verbatim>\<open>s.lower()\<close>\<close>

definition str_upper :: "string \<Rightarrow> string" where
  "str_upper s = map to_upper s"


text \<open>
  \<^verbatim>\<open>s.title()\<close>: a cased character is written in lower case when the character before it
  is cased, in upper case otherwise.
\<close>

fun title_from :: "bool \<Rightarrow> string \<Rightarrow> string" where
  "title_from previous_is_cased [] = []"
| "title_from previous_is_cased (c # cs) =
     (if previous_is_cased then to_lower c else to_upper c)
       # title_from (is_lower c \<or> is_upper c) cs"

definition str_title :: "string \<Rightarrow> string" where
  "str_title s = title_from False s"




subsection \<open>Regular expressions\<close>

text \<open>
  The fragment of Python's \<^verbatim>\<open>re\<close> syntax that \<^verbatim>\<open>ICD10_PATTERN\<close> is written in:
  \<^verbatim>\<open>^\<close>, \<^verbatim>\<open>$\<close>, a literal character, a class of character ranges, concatenation,
  \<^verbatim>\<open>(...)?\<close> and \<^verbatim>\<open>{m,n}\<close>.
\<close>

datatype regex =
    Bol
  | Eol
  | Chr char
  | Cls "(char \<times> char) list"
  | Seq regex regex
  | Opt regex
  | Rep nat nat regex

text \<open>
  A matching position is the text still to be read, with a flag that tells whether it is the
  start of the subject. \<open>rem r p\<close> lists every position at which a match of \<open>r\<close> that
  starts at \<open>p\<close> can end. Without the MULTILINE flag \<^verbatim>\<open>^\<close> matches at the start only and
  \<^verbatim>\<open>$\<close> at the end or just before a newline that ends the subject.
\<close>

definition in_class :: "(char \<times> char) list \<Rightarrow> char \<Rightarrow> bool" where
  "in_class ranges c =
     list_ex (\<lambda>(lo, hi). (of_char lo :: nat) \<le> of_char c \<and> (of_char c :: nat) \<le> of_char hi)
       ranges"

fun repeat :: "(bool \<times> string \<Rightarrow> (bool \<times> string) list) \<Rightarrow> nat \<Rightarrow> nat \<Rightarrow> bool \<times> string
    \<Rightarrow> (bool \<times> string) list" where
  "repeat step m 0 p = (if m = 0 then [p] else [])"
| "repeat step m (Suc n) p =
     concat (map (repeat step (m - 1) n) (step p)) @ (if m = 0 then [p] else [])"

primrec rem :: "regex \<Rightarrow> bool \<times> string \<Rightarrow> (bool \<times> string) list" where
  "rem Bol p = (if fst p then [p] else [])"
| "rem Eol p = (if snd p = [] \<or> snd p = [CHR 0x0A] then [p] else [])"
| "rem (Chr c) p = (case snd p of [] \<Rightarrow> [] | x # xs \<Rightarrow> if x = c then [(False, xs)] else [])"
| "rem (Cls ranges) p =
     (case snd p of [] \<Rightarrow> [] | x # xs \<Rightarrow> if in_class ranges x then [(False, xs)] else [])"
| "rem (Seq r1 r2) p = concat (map (rem r2) (rem r1 p))"
| "rem (Opt r) p = rem r p @ [p]"
| "rem (Rep m n r) p = repeat (rem r) m n p"

text \<open>\<^verbatim>\<open>bool(re.match(pattern, s))\<close>: some match starts at the beginning of \<open>s\<close>.\<close>

definition re_match :: "regex \<Rightarrow> string \<Rightarrow> bool" where
  "re_match pattern s = (rem pattern (True, s) \<noteq> [])"

text \<open>\<^verbatim>\<open>ICD10_PATTERN = r'^[A-Z][0-9][0-9A-Z](\.[0-9A-Z]{1,4})?$'\<close> (config.py)\<close>

definition ICD10_PATTERN :: regex where
  "ICD10_PATTERN =
     Seq Bol
    (Seq (Cls [(CHR ''A'', CHR ''Z'')])
    (Seq (Cls [(CHR ''0'', CHR ''9'')])
    (Seq (Cls [(CHR ''0'', CHR ''9''), (CHR ''A'', CHR ''Z'')])
    (Seq (Opt (Seq (Chr CHR ''.'')
                   (Rep 1 4 (Cls [(CHR ''0'', CHR ''9''), (CHR ''A'', CHR ''Z'')]))))
         Eol))))"

subsection \<open>utils.py\<close>

text \<open>
  \<^verbatim>\<open>validate_icd10_code(code, pattern)\<close>: false on a missing code, otherwise whether the
  pattern matches the code as it is passed.
\<close>

definition validate_icd10_code :: "string option \<Rightarrow> regex \<Rightarrow> bool" where
  "validate_icd10_code code pattern =
     (case code of None \<Rightarrow> False | Some s \<Rightarrow> re_match pattern s)"

text \<open>
  \<^verbatim>\<open>series.astype(int)\<close> on a float series: truncation towards zero, and
  IntCastingNaNError as soon as one value is NaN.
\<close>

definition trunc_to_zero :: "rat \<Rightarrow> int" where
  "trunc_to_zero q = (if q < 0 then \<lceil>q\<rceil> else \<lfloor>q\<rfloor>)"

fun astype_int :: "rat option list \<Rightarrow> error + int list" where
  "astype_int [] = Inr []"
| "astype_int (None # xs) = Inl IntCastingNaNError"
| "astype_int (Some q # xs) =
     (case astype_int xs of Inl e \<Rightarrow> Inl e | Inr ys \<Rightarrow> Inr (trunc_to_zero q # ys))"

text \<open>
  \<^verbatim>\<open>calculate_age(dob)\<close> with the reference date left at its default, the clock reading
  \<open>now\<close>: \<^verbatim>\<open>((now - dob).dt.days / 365.25).astype(int)\<close>. The quotient is exact here, where
  the source rounds it to a double; for day counts that fit a timestamp difference the
  truncated value is the same.
\<close>

definition calculate_age :: "int \<Rightarrow> datetime list \<Rightarrow> error + int list" where
  "calculate_age now dob =
     (let age = map (\<lambda>d. map_option (\<lambda>days. of_int days / (36525 / 100))
                             (dt_days (dt_sub (Timestamp now) d))) dob
      in astype_int age)"







subsection \<open>data_cleaner.py: patients\<close>

text \<open>\<^verbatim>\<open>_handle_missing_patient_info\<close>\<close>

definition handle_missing_patient_info :: "'k dataframe \<Rightarrow> 'k dataframe" where
  "handle_missing_patient_info df =
     (if has_column ''gender'' df
      then set_column ''gender'' (\<lambda>v r. r\<lparr>gender := v\<rparr>)
             (fillna ''Unknown'' (map gender (rows df))) df
      else df)"

text \<open>The dictionary \<^verbatim>\<open>gender_mapping\<close> and \<^verbatim>\<open>series.map(gender_mapping)\<close>.\<close>

definition gender_mapping :: "string \<rightharpoonup> string" where
  "gender_mapping = map_of
     [(''M'', ''Male''), (''m'', ''Male''), (''male'', ''Male''), (''MALE'', ''Male''),
      (''F'', ''Female''), (''f'', ''Female''), (''female'', ''Female''), (''FEMALE'', ''Female''),
      (''O'', ''Other''), (''o'', ''Other''), (''other'', ''Other''), (''OTHER'', ''Other'')]"

definition series_map :: "('a \<rightharpoonup> 'b) \<Rightarrow> 'a option list \<Rightarrow> 'b option list" where
  "series_map d cells = map (\<lambda>c. case c of None \<Rightarrow> None | Some x \<Rightarrow> d x) cells"

text \<open>\<^verbatim>\<open>_standardize_gender\<close>\<close>

definition standardize_gender :: "'k dataframe \<Rightarrow> 'k dataframe" where
  "standardize_gender df =
     (if has_column ''gender'' df
      then set_column ''gender'' (\<lambda>v r. r\<lparr>gender := v\<rparr>)
             (fillna ''Unknown'' (series_map gender_mapping (map gender (rows df)))) df
      else df)"

text \<open>\<^verbatim>\<open>_clean_date_of_birth\<close>; \<open>now\<close> is the reading of \<^verbatim>\<open>pd.Timestamp.now()\<close>.\<close>

definition clean_date_of_birth :: "(string \<rightharpoonup> int) \<Rightarrow> int \<Rightarrow> 'k dataframe \<Rightarrow> 'k dataframe" where
  "clean_date_of_birth parse now df =
     (if has_column ''date_of_birth'' df
      then (let dfp = set_column ''date_of_birth'' (\<lambda>v r. r\<lparr>date_of_birth := v\<rparr>)
                        (map (\<lambda>r. to_datetime parse (date_of_birth r)) (rows df)) df;
                future_dob = map (\<lambda>r. dt_less (Timestamp now) (date_of_birth r)) (rows dfp)
            in boolean_index (map Not future_dob) dfp)
      else df)"

text \<open>\<^verbatim>\<open>_remove_duplicate_patients\<close>\<close>

definition remove_duplicate_patients :: "'k dataframe \<Rightarrow> 'k dataframe" where
  "remove_duplicate_patients df =
     (if has_column ''patient_id'' df
      then boolean_index (map Not (duplicated (map patient_id (rows df)))) df
      else df)"

text \<open>
  \<^verbatim>\<open>clean_patients_data\<close>. The clock is read twice, in \<^verbatim>\<open>_clean_date_of_birth\<close>
  (\<open>now_dob\<close>) and in \<^verbatim>\<open>calculate_age\<close> (\<open>now_age\<close>). An exception raised by
  \<^verbatim>\<open>calculate_age\<close> leaves the call before the report entry is appended.
\<close>

definition clean_patients_data ::
  "(string \<rightharpoonup> int) \<Rightarrow> int \<Rightarrow> int \<Rightarrow> 'k dataframe \<Rightarrow> cleaner
     \<Rightarrow> error + ('k dataframe \<times> cleaner)" where
  "clean_patients_data parse now_dob now_age df0 self =
    (let initial = len df0;
         df1 = handle_missing_patient_info df0;
         df2 = standardize_gender df1;
         df3 = clean_date_of_birth parse now_dob df2
     in case (if has_column ''date_of_birth'' df3
              then (case calculate_age now_age
                           (map (\<lambda>r. to_datetime parse (date_of_birth r)) (rows df3)) of
                      Inl e \<Rightarrow> Inl e
                    | Inr ages \<Rightarrow>
                        (let dfa = set_column ''age'' (\<lambda>v r. r\<lparr>age := Some v\<rparr>) ages df3
                         in Inr (boolean_index
                                   (map (\<lambda>r. num_ge (age r) MIN_AGE \<and> num_le (age r) MAX_AGE)
                                      (rows dfa)) dfa)))
              else Inr df3) of
          Inl e \<Rightarrow> Inl e
        | Inr df4 \<Rightarrow>
            (let df5 = remove_duplicate_patients df4;
                 final = len df5
             in Inr (df5, append_report ''patients'' initial final self)))"

subsection \<open>data_cleaner.py: diagnoses, medications, staff\<close>

text \<open>\<^verbatim>\<open>series.astype(str)\<close> on a text column: NaN becomes the string \<^verbatim>\<open>nan\<close>.\<close>

definition astype_str :: "string option \<Rightarrow> string" where
  "astype_str c = (case c of None \<Rightarrow> ''nan'' | Some s \<Rightarrow> s)"

text \<open>\<^verbatim>\<open>clean_diagnoses_data\<close>\<close>

definition clean_diagnoses_data :: "'k dataframe \<Rightarrow> cleaner \<Rightarrow> 'k dataframe \<times> cleaner" where
  "clean_diagnoses_data df0 self =
    (let initial = len df0;
         df1 = (if has_column ''icd_code'' df0
                then (let dfc = set_column ''icd_code'' (\<lambda>v r. r\<lparr>icd_code := Some v\<rparr>)
                                  (map (\<lambda>r. str_upper (str_strip (astype_str (icd_code r))))
                                     (rows df0)) df0;
                          valid_codes =
                            map (\<lambda>r. validate_icd10_code (icd_code r) ICD10_PATTERN) (rows dfc)
                      in set_column ''icd_code_valid'' (\<lambda>v r. r\<lparr>icd_code_valid := v\<rparr>)
                           valid_codes dfc)
                else df0);
         df2 = (if has_column ''visit_id'' df1 \<and> has_column ''icd_code'' df1
                then boolean_index
                       (map Not (duplicated (map (\<lambda>r. (visit_id r, icd_code r)) (rows df1)))) df1
                else df1);
         final = len df2
     in (df2, append_report ''diagnoses'' initial final self))"

text \<open>
  \<^verbatim>\<open>df.dropna(subset=cols)\<close>: a row goes when one of the named cells is missing. Each
  critical column comes with the test for a missing cell in it.
\<close>

definition dropna :: "('k row \<Rightarrow> bool) list \<Rightarrow> 'k dataframe \<Rightarrow> 'k dataframe" where
  "dropna isna_subset df =
     boolean_index (map (\<lambda>r. \<not> list_ex (\<lambda>isna. isna r) isna_subset) (rows df)) df"

definition critical_cols :: "(string \<times> ('k row \<Rightarrow> bool)) list" where
  "critical_cols =
     [(''visit_id'', \<lambda>r. visit_id r = None),
      (''medication_name'', \<lambda>r. medication_name r = None)]"



subsection \<open>validators.py\<close>

record validation_check =
  test :: string
  passed :: bool
  message :: string

text \<open>The field \<open>result_dataset\<close> is the key \<^verbatim>\<open>'dataset'\<close> of a result dictionary.\<close>

record validation_result =
  result_dataset :: string
  checks :: "validation_check list"

record validator =
  validation_results :: "validation_result list"



text \<open>
  The lines of the validation report. The summary line carries the two counts and the
  percentage as an exact number, before it is printed with one decimal.
\<close>

datatype report_line =
    Banner
  | Heading
  | Blank
  | DatasetLine string
  | Dashes
  | StatusLine bool string
  | MessageLine string
  | SummaryLine int int rat

text \<open>Python's \<^verbatim>\<open>a / b\<close> on integers.\<close>

definition truediv :: "int \<Rightarrow> int \<Rightarrow> error + rat" where
  "truediv a b = (if b = 0 then Inl ZeroDivisionError else Inr (of_int a / of_int b))"

text \<open>
  The two nested iterations of \<^verbatim>\<open>generate_validation_report\<close>; the state is the list of lines and
  the counters \<^verbatim>\<open>total_checks\<close> and \<^verbatim>\<open>passed_checks\<close>.
\<close>

fun report_checks :: "validation_check list \<Rightarrow> report_line list \<times> int \<times> int
    \<Rightarrow> report_line list \<times> int \<times> int" where
  "report_checks [] st = st"
| "report_checks (check # rest) (report_lines, total_checks, passed_checks) =
     report_checks rest
       (report_lines @ [StatusLine (passed check) (test check), MessageLine (message check), Blank],
        total_checks + 1,
        (if passed check then passed_checks + 1 else passed_checks))"

fun report_results :: "validation_result list \<Rightarrow> report_line list \<times> int \<times> int
    \<Rightarrow> report_line list \<times> int \<times> int" where
  "report_results [] st = st"
| "report_results (result # rest) (report_lines, total_checks, passed_checks) =
     report_results rest
       (report_checks (checks result)
          (report_lines @ [DatasetLine (result_dataset result), Dashes],
           total_checks, passed_checks))"

text \<open>\<^verbatim>\<open>generate_validation_report\<close>\<close>

definition generate_validation_report :: "validator \<Rightarrow> error + report_line list" where
  "generate_validation_report self =
    (case report_results (validation_results self) ([Banner, Heading, Banner, Blank], 0, 0) of
       (report_lines, total_checks, passed_checks) \<Rightarrow>
         (case truediv passed_checks total_checks of
            Inl e \<Rightarrow> Inl e
          | Inr ratio \<Rightarrow>
              Inr (report_lines @
                   [Banner, SummaryLine passed_checks total_checks (ratio * 100), Banner])))"

subsection \<open>Concrete inputs\<close>

text \<open>A row with every cell missing, from which the concrete rows below are built.\<close>

definition blank_row :: "string row" where
  "blank_row =
     \<lparr>patient_id = None, visit_id = None, staff_id = None, gender = None,
      date_of_birth = NaT, age = None, admission_date = NaT, discharge_date = NaT,
      length_of_stay = None, icd_code = None, icd_code_valid = False,
      medication_name = None, staff_name = None, name = None\<rparr>"

definition new_cleaner :: cleaner where
  "new_cleaner = \<lparr>cleaning_report = []\<rparr>"

definition new_validator :: validator where
  "new_validator = \<lparr>validation_results = []\<rparr>"

text \<open>A date parser that reads three dates, and as such rejects every other text.\<close>

definition known_dates :: "string \<rightharpoonup> int" where
  "known_dates =
     [''1970-01-01'' \<mapsto> 0, ''1970-01-02'' \<mapsto> NS_PER_DAY, ''1904-01-08'' \<mapsto> - 24100 * NS_PER_DAY]"

text \<open>A patients set with a row whose date of birth does not parse.\<close>

definition patients_bad_dob :: "string dataframe" where
  "patients_bad_dob =
     \<lparr>columns = [''patient_id'', ''date_of_birth''],
      rows = [blank_row\<lparr>patient_id := Some ''P1'', date_of_birth := Text ''1970-01-01''\<rparr>,
              blank_row\<lparr>patient_id := Some ''P2'', date_of_birth := Text ''not-a-date''\<rparr>]\<rparr>"




text \<open>A visits set with one row whose admission date does not parse.\<close>

definition visits_bad_admission :: "string dataframe" where
  "visits_bad_admission =
     \<lparr>columns = [''visit_id'', ''admission_date'', ''discharge_date''],
      rows = [blank_row\<lparr>visit_id := Some ''V1'', admission_date := Text ''soon'',
                        discharge_date := Text ''1970-01-02''\<rparr>]\<rparr>"

text \<open>A visits set with a one-day stay on two rows of the same identifier, and a reversed stay.\<close>

definition visits_three :: "string dataframe" where
  "visits_three =
     \<lparr>columns = [''visit_id'', ''admission_date'', ''discharge_date''],
      rows = [blank_row\<lparr>visit_id := Some ''V1'', admission_date := Timestamp 0,
                        discharge_date := Timestamp 90000000000000\<rparr>,
              blank_row\<lparr>visit_id := Some ''V1'', admission_date := Timestamp 0,
                        discharge_date := Timestamp 90000000000000\<rparr>,
              blank_row\<lparr>visit_id := Some ''V2'', admission_date := Timestamp 90000000000000,
                        discharge_date := Timestamp 0\<rparr>]\<rparr>"



text \<open>A diagnoses set: a code to normalise, a missing code twice on one visit, a malformed code.\<close>

definition diagnoses_four :: "string dataframe" where
  "diagnoses_four =
     \<lparr>columns = [''visit_id'', ''icd_code''],
      rows = [blank_row\<lparr>visit_id := Some ''V1'', icd_code := Some '' e11.9 ''\<rparr>,
              blank_row\<lparr>visit_id := Some ''V2'', icd_code := None\<rparr>,
              blank_row\<lparr>visit_id := Some ''V2'', icd_code := None\<rparr>,
              blank_row\<lparr>visit_id := Some ''V3'', icd_code := Some ''11.9''\<rparr>]\<rparr>"






subsection \<open>The blocks of the cleaning calls\<close>

text \<open>
  The four blocks of \<open>clean_visits_data\<close>, each as a function of its own: the date columns
  parsed, the reversed stays removed, the length of stay recomputed and filtered, the
  duplicates dropped. The call is their composition (\<open>clean_visits_data_blocks\<close> below).
\<close>

definition visits_parse_dates :: "(string \<rightharpoonup> int) \<Rightarrow> 'k dataframe \<Rightarrow> 'k dataframe" where
  "visits_parse_dates parse df0 =
     (let df1 = (if has_column ''admission_date'' df0
                 then set_column ''admission_date'' (\<lambda>v r. r\<lparr>admission_date := v\<rparr>)
                        (map (\<lambda>r. to_datetime parse (admission_date r)) (rows df0)) df0
                 else df0)
      in if has_column ''discharge_date'' df1
         then set_column ''discharge_date'' (\<lambda>v r. r\<lparr>discharge_date := v\<rparr>)
                (map (\<lambda>r. to_datetime parse (discharge_date r)) (rows df1)) df1
         else df1)"

definition visits_remove_reversed :: "'k dataframe \<Rightarrow> 'k dataframe" where
  "visits_remove_reversed df2 =
     (if has_column ''admission_date'' df2 \<and> has_column ''discharge_date'' df2
      then (let invalid_dates =
                  map (\<lambda>r. dt_less (discharge_date r) (admission_date r)) (rows df2)
            in boolean_index (map Not invalid_dates) df2)
      else df2)"

definition visits_length_of_stay :: "'k dataframe \<Rightarrow> 'k dataframe" where
  "visits_length_of_stay df3 =
     (if has_column ''admission_date'' df3 \<and> has_column ''discharge_date'' df3
      then (let dfl = set_column ''length_of_stay'' (\<lambda>v r. r\<lparr>length_of_stay := v\<rparr>)
                        (map (\<lambda>r. dt_days (dt_sub (discharge_date r) (admission_date r)))
                           (rows df3)) df3;
                invalid_los =
                  map (\<lambda>r. num_lt (length_of_stay r) MIN_LOS_DAYS
                            \<or> num_gt (length_of_stay r) MAX_LOS_DAYS) (rows dfl)
            in boolean_index (map Not invalid_los) dfl)
      else df3)"

definition visits_remove_duplicates :: "'k dataframe \<Rightarrow> 'k dataframe" where
  "visits_remove_duplicates df4 =
     (if has_column ''visit_id'' df4
      then boolean_index (map Not (duplicated (map visit_id (rows df4)))) df4
      else df4)"

text \<open>The two blocks of \<open>clean_diagnoses_data\<close>.\<close>

definition diagnoses_normalize_codes :: "'k dataframe \<Rightarrow> 'k dataframe" where
  "diagnoses_normalize_codes df0 =
     (if has_column ''icd_code'' df0
      then (let dfc = set_column ''icd_code'' (\<lambda>v r. r\<lparr>icd_code := Some v\<rparr>)
                        (map (\<lambda>r. str_upper (str_strip (astype_str (icd_code r))))
                           (rows df0)) df0;
                valid_codes =
                  map (\<lambda>r. validate_icd10_code (icd_code r) ICD10_PATTERN) (rows dfc)
            in set_column ''icd_code_valid'' (\<lambda>v r. r\<lparr>icd_code_valid := v\<rparr>)
                 valid_codes dfc)
      else df0)"

definition diagnoses_remove_duplicates :: "'k dataframe \<Rightarrow> 'k dataframe" where
  "diagnoses_remove_duplicates df1 =
     (if has_column ''visit_id'' df1 \<and> has_column ''icd_code'' df1
      then boolean_index
             (map Not (duplicated (map (\<lambda>r. (visit_id r, icd_code r)) (rows df1)))) df1
      else df1)"

text \<open>The three blocks of \<open>clean_medications_data\<close>.\<close>

definition medications_standardize_names :: "'k dataframe \<Rightarrow> 'k dataframe" where
  "medications_standardize_names df0 =
     (if has_column ''medication_name'' df0
      then set_column ''medication_name'' (\<lambda>v r. r\<lparr>medication_name := v\<rparr>)
             (map (\<lambda>r. map_option (\<lambda>s. str_title (str_strip s)) (medication_name r))
                (rows df0)) df0
      else df0)"

definition medications_drop_missing :: "'k dataframe \<Rightarrow> 'k dataframe" where
  "medications_drop_missing df1 =
     dropna (map snd (filter (\<lambda>(col, isna). has_column col df1) critical_cols)) df1"

definition medications_remove_duplicates :: "'k dataframe \<Rightarrow> 'k dataframe" where
  "medications_remove_duplicates df2 =
     (if has_column ''visit_id'' df2 \<and> has_column ''medication_name'' df2
      then boolean_index
             (map Not (duplicated (map (\<lambda>r. (visit_id r, medication_name r)) (rows df2))))
             df2
      else df2)"

text \<open>The two blocks of \<open>clean_staff_data\<close>.\<close>

definition staff_standardize_names :: "'k dataframe \<Rightarrow> 'k dataframe" where
  "staff_standardize_names df0 =
     (if has_column ''staff_name'' df0 \<or> has_column ''name'' df0
      then (if has_column ''staff_name'' df0
            then set_column ''staff_name'' (\<lambda>v r. r\<lparr>staff_name := v\<rparr>)
                   (map (\<lambda>r. map_option (\<lambda>s. str_title (str_strip s)) (staff_name r))
                      (rows df0)) df0
            else set_column ''name'' (\<lambda>v r. r\<lparr>name := v\<rparr>)
                   (map (\<lambda>r. map_option (\<lambda>s. str_title (str_strip s)) (name r))
                      (rows df0)) df0)
      else df0)"

definition staff_remove_duplicates :: "'k dataframe \<Rightarrow> 'k dataframe" where
  "staff_remove_duplicates df1 =
     (if has_column ''staff_id'' df1
      then boolean_index (map Not (duplicated (map staff_id (rows df1)))) df1
      else df1)"



subsection \<open>The ICD-10 format in words\<close>

text \<open>
  What \<^verbatim>\<open>ICD10_PATTERN\<close> describes, written out: an upper-case letter, a digit, a digit or
  upper-case letter, and optionally a dot followed by one to four digits or upper-case
  letters.
\<close>

definition alnum :: "char \<Rightarrow> bool" where
  "alnum c = in_class [(CHR ''0'', CHR ''9''), (CHR ''A'', CHR ''Z'')] c"

definition icd10_extension :: "string \<Rightarrow> bool" where
  "icd10_extension ext =
     (case ext of [] \<Rightarrow> True
      | d # tail \<Rightarrow> d = CHR ''.'' \<and> 1 \<le> length tail \<and> length tail \<le> 4 \<and> list_all alnum tail)"

definition icd10_format :: "string \<Rightarrow> bool" where
  "icd10_format s =
     (case s of
        c1 # c2 # c3 # ext \<Rightarrow>
          in_class [(CHR ''A'', CHR ''Z'')] c1 \<and> in_class [(CHR ''0'', CHR ''9'')] c2 \<and>
          alnum c3 \<and> icd10_extension ext
      | _ \<Rightarrow> False)"

subsection \<open>Cleaned rows\<close>






subsection \<open>The report entry of a call, and a second pass\<close>



section \<open>Properties of the frame operations\<close>

lemma select_map: "select (map p xs) xs = filter p xs"
  by (induction xs) (simp_all add: select_def)

lemma select_map_map: "select (map g xs) (map f xs) = map f (filter g xs)"
  by (induction xs) (simp_all add: select_def)

lemma rows_boolean_index: "rows (boolean_index flags df) = select flags (rows df)"
  by (simp add: boolean_index_def)

lemma rows_boolean_index_map:
  "rows (boolean_index (map p (rows df)) df) = filter p (rows df)"
  by (simp add: boolean_index_def select_map)

lemma columns_boolean_index [simp]: "columns (boolean_index flags df) = columns df"
  by (simp add: boolean_index_def)

lemma has_column_boolean_index [simp]:
  "has_column c (boolean_index flags df) = has_column c df"
  by (simp add: has_column_def)

lemma map2_map_same: "map2 f (map g xs) xs = map (\<lambda>x. f (g x) x) xs"
  by (induction xs) simp_all

lemma map2_map_map: "map2 f (map g xs) (map h xs) = map (\<lambda>x. f (g x) (h x)) xs"
  by (induction xs) simp_all

lemma rows_set_column: "rows (set_column c setter vals df) = map2 setter vals (rows df)"
  by (simp add: set_column_def)

lemma rows_set_column_map:
  "rows (set_column c setter (map g (rows df)) df) = map (\<lambda>r. setter (g r) r) (rows df)"
  by (simp add: set_column_def map2_map_same)

lemma has_column_set_column [simp]:
  "has_column c' (set_column c setter vals df) = (c' = c \<or> has_column c' df)"
  by (auto simp: has_column_def set_column_def)

text \<open>Dropping the rows that \<open>duplicated\<close> marks keeps the first row of every key.\<close>

lemma select_not_duplicated_from:
  "select (map Not (duplicated_from seen (map f xs))) xs =
     (case xs of [] \<Rightarrow> []
      | x # ys \<Rightarrow> (if f x \<in> set seen then [] else [x]) @
          select (map Not (duplicated_from (f x # seen) (map f ys))) ys)"
  by (cases xs) (simp_all add: select_def)

lemma drop_duplicates_subset:
  "set (select (map Not (duplicated_from seen (map f xs))) xs) \<subseteq> set xs"
proof (induction xs arbitrary: seen)
  case Nil
  show ?case by (simp add: select_def)
next
  case (Cons x xs)
  from Cons.IH [of "f x # seen"] show ?case
    by (subst select_not_duplicated_from) auto
qed


lemma drop_duplicates_fresh:
  "y \<in> set (select (map Not (duplicated_from seen (map f xs))) xs) \<Longrightarrow> f y \<notin> set seen"
proof (induction xs arbitrary: seen)
  case Nil
  then show ?case by (simp add: select_def)
next
  case (Cons x xs)
  from Cons.prems have
    "y \<in> set ((if f x \<in> set seen then [] else [x]) @
        select (map Not (duplicated_from (f x # seen) (map f xs))) xs)"
    by (subst (asm) select_not_duplicated_from) simp
  then consider "y = x" "f x \<notin> set seen"
    | "y \<in> set (select (map Not (duplicated_from (f x # seen) (map f xs))) xs)"
    by (auto split: if_splits)
  then show ?case
  proof cases
    case 1
    then show ?thesis by simp
  next
    case 2
    from Cons.IH [OF this] show ?thesis by simp
  qed
qed

lemma drop_duplicates_distinct:
  "distinct (map f (select (map Not (duplicated_from seen (map f xs))) xs))"
proof (induction xs arbitrary: seen)
  case Nil
  show ?case by (simp add: select_def)
next
  case (Cons x xs)
  have "f x \<notin> f ` set (select (map Not (duplicated_from (f x # seen) (map f xs))) xs)"
  proof
    assume "f x \<in> f ` set (select (map Not (duplicated_from (f x # seen) (map f xs))) xs)"
    then obtain y where y: "y \<in> set (select (map Not (duplicated_from (f x # seen) (map f xs))) xs)"
      and eq: "f x = f y" by auto
    from drop_duplicates_fresh [OF y] eq show False by simp
  qed
  with Cons.IH [of "f x # seen"] show ?case
    by (subst select_not_duplicated_from) auto
qed

lemma drop_duplicates_id:
  "distinct (map f xs) \<Longrightarrow> set (map f xs) \<inter> set seen = {} \<Longrightarrow>
     select (map Not (duplicated_from seen (map f xs))) xs = xs"
proof (induction xs arbitrary: seen)
  case Nil
  show ?case by (simp add: select_def)
next
  case (Cons x xs)
  from Cons.prems have "distinct (map f xs)" "set (map f xs) \<inter> set (f x # seen) = {}"
    by auto
  from Cons.IH [OF this] Cons.prems show ?case
    by (subst select_not_duplicated_from) auto
qed

lemma drop_duplicates_idem:
  "select (map Not (duplicated (map f ys))) ys = ys"
  if "ys = select (map Not (duplicated (map f xs))) xs"
  unfolding duplicated_def that
  by (rule drop_duplicates_id) (simp_all add: drop_duplicates_distinct)





section \<open>Properties of the string operations\<close>

lemma to_upper_space [simp]: "is_space (to_upper c) = is_space c"
  by (auto simp: to_upper_def is_space_def is_lower_def Let_def)

lemma to_lower_space [simp]: "is_space (to_lower c) = is_space c"
  by (auto simp: to_lower_def is_space_def is_upper_def Let_def)

lemma to_upper_idem [simp]: "to_upper (to_upper c) = to_upper c"
  by (auto simp: to_upper_def is_lower_def Let_def)

lemma to_lower_idem [simp]: "to_lower (to_lower c) = to_lower c"
  by (auto simp: to_lower_def is_upper_def Let_def)

lemma cased_to_upper [simp]:
  "(is_lower (to_upper c) \<or> is_upper (to_upper c)) = (is_lower c \<or> is_upper c)"
  by (auto simp: to_upper_def is_lower_def is_upper_def Let_def)

lemma cased_to_lower [simp]:
  "(is_lower (to_lower c) \<or> is_upper (to_lower c)) = (is_lower c \<or> is_upper c)"
  by (auto simp: to_lower_def is_lower_def is_upper_def Let_def)


text \<open>A string is stripped when it neither starts nor ends with white space.\<close>

lemma dropWhile_id_iff: "xs = [] \<or> \<not> P (hd xs) \<Longrightarrow> dropWhile P xs = xs"
  by (cases xs) auto

lemma str_strip_fixed:
  assumes "s = [] \<or> (\<not> is_space (hd s) \<and> \<not> is_space (last s))"
  shows "str_strip s = s"
proof (cases "s = []")
  case True
  then show ?thesis by (simp add: str_strip_def)
next
  case False
  with assms have h: "\<not> is_space (hd s)" and l: "\<not> is_space (last s)" by auto
  from h False have "dropWhile is_space s = s" by (simp add: dropWhile_id_iff)
  moreover from l False have "dropWhile is_space (rev s) = rev s"
    by (simp add: dropWhile_id_iff hd_rev)
  ultimately show ?thesis by (simp add: str_strip_def)
qed

lemma str_strip_stripped:
  "str_strip s = [] \<or> (\<not> is_space (hd (str_strip s)) \<and> \<not> is_space (last (str_strip s)))"
proof (cases "str_strip s = []")
  case True
  then show ?thesis by simp
next
  case False
  let ?t = "dropWhile is_space s"
  let ?u = "dropWhile is_space (rev ?t)"
  from False have u: "?u \<noteq> []" by (simp add: str_strip_def)
  then have "\<not> is_space (hd ?u)" by (rule hd_dropWhile)
  then have last: "\<not> is_space (last (str_strip s))"
    using u by (simp add: str_strip_def last_rev)
  have t: "?t \<noteq> []"
  proof
    assume "?t = []"
    then have "?u = []" by (simp only: rev.simps dropWhile.simps)
    with u show False by contradiction
  qed
  then have ht: "\<not> is_space (hd ?t)" by (rule hd_dropWhile)
  obtain ys where ys: "rev ?t = ys @ ?u"
    by (metis takeWhile_dropWhile_id)
  then have "?t = rev ?u @ rev ys" by (metis rev_append rev_rev_ident)
  moreover from u have "rev ?u \<noteq> []" by (simp only: rev_is_Nil_conv not_False_eq_True)
  ultimately have "hd ?t = hd (rev ?u)" by (metis hd_append2)
  with ht have "\<not> is_space (hd (str_strip s))" by (simp add: str_strip_def)
  with last show ?thesis by simp
qed

lemma str_strip_idem [simp]: "str_strip (str_strip s) = str_strip s"
  by (rule str_strip_fixed) (rule str_strip_stripped)


lemma str_upper_idem [simp]: "str_upper (str_upper s) = str_upper s"
  by (simp add: str_upper_def)




lemma title_from_Nil_iff [simp]: "(title_from b s = []) = (s = [])"
  by (cases s) simp_all



section \<open>Patients cleaning\<close>

lemma astype_int_NaN: "None \<in> set xs \<Longrightarrow> astype_int xs = Inl IntCastingNaNError"
  by (induction xs rule: astype_int.induct) (auto split: sum.splits)


lemma rows_handle_missing_patient_info:
  "rows (handle_missing_patient_info df) =
     (if has_column ''gender'' df
      then map (\<lambda>r. r\<lparr>gender := Some (case gender r of None \<Rightarrow> ''Unknown'' | Some g \<Rightarrow> g)\<rparr>) (rows df)
      else rows df)"
proof -
  have "fillna ''Unknown'' (map gender (rows df)) =
      map (\<lambda>r. Some (case gender r of None \<Rightarrow> ''Unknown'' | Some g \<Rightarrow> g)) (rows df)"
    by (simp add: fillna_def option.case_eq_if)
  then show ?thesis
    by (simp add: handle_missing_patient_info_def rows_set_column_map)
qed

lemma rows_standardize_gender:
  "rows (standardize_gender df) =
     (if has_column ''gender'' df
      then map (\<lambda>r. r\<lparr>gender := Some (case gender r of None \<Rightarrow> ''Unknown''
                  | Some g \<Rightarrow> (case gender_mapping g of None \<Rightarrow> ''Unknown'' | Some v \<Rightarrow> v))\<rparr>)
             (rows df)
      else rows df)"
proof -
  have "fillna ''Unknown'' (series_map gender_mapping (map gender (rows df))) =
      map (\<lambda>r. Some (case gender r of None \<Rightarrow> ''Unknown''
                  | Some g \<Rightarrow> (case gender_mapping g of None \<Rightarrow> ''Unknown'' | Some v \<Rightarrow> v)))
        (rows df)"
    by (simp add: fillna_def series_map_def split: option.splits)
  then show ?thesis
    by (simp add: standardize_gender_def rows_set_column_map)
qed

lemma has_column_handle_missing [simp]:
  "has_column c (handle_missing_patient_info df) = has_column c df"
  by (auto simp: handle_missing_patient_info_def)

lemma has_column_standardize_gender [simp]:
  "has_column c (standardize_gender df) = has_column c df"
  by (auto simp: standardize_gender_def)

lemma has_column_clean_date_of_birth [simp]:
  "has_column c (clean_date_of_birth parse now df) = has_column c df"
  by (auto simp: clean_date_of_birth_def Let_def)

lemma has_column_remove_duplicate_patients [simp]:
  "has_column c (remove_duplicate_patients df) = has_column c df"
  by (auto simp: remove_duplicate_patients_def)

lemma rows_clean_date_of_birth:
  "rows (clean_date_of_birth parse now df) =
     (if has_column ''date_of_birth'' df
      then filter (\<lambda>r. \<not> dt_less (Timestamp now) (date_of_birth r))
             (map (\<lambda>r. r\<lparr>date_of_birth := to_datetime parse (date_of_birth r)\<rparr>) (rows df))
      else rows df)"
  by (simp add: clean_date_of_birth_def Let_def rows_boolean_index rows_set_column_map
        select_map_map filter_map comp_def)

text \<open>The genders do not touch the dates: the date cells that reach \<open>calculate_age\<close>.\<close>

lemma dob_after_gender_steps:
  "map date_of_birth (rows (standardize_gender (handle_missing_patient_info df))) =
     map date_of_birth (rows df)"
  by (simp add: rows_standardize_gender rows_handle_missing_patient_info comp_def)

lemma to_datetime_idem [simp]: "to_datetime parse (to_datetime parse d) = to_datetime parse d"
  by (cases d) (simp_all split: option.splits)

lemma dt_less_NaT [simp]: "dt_less a NaT = False"
  by (cases a) simp_all

lemma calculate_age_NaT:
  "NaT \<in> set dob \<Longrightarrow> calculate_age now dob = Inl IntCastingNaNError"
  unfolding calculate_age_def Let_def
  by (rule astype_int_NaN) (force simp: dt_days_def)

lemma clean_patients_data_raises:
  assumes col: "has_column ''date_of_birth'' df"
    and r: "r \<in> set (rows df)"
    and nat: "to_datetime parse (date_of_birth r) = NaT"
  shows "clean_patients_data parse now_dob now_age df self = Inl IntCastingNaNError"
proof -
  let ?df2 = "standardize_gender (handle_missing_patient_info df)"
  let ?df3 = "clean_date_of_birth parse now_dob ?df2"
  from r have "date_of_birth r \<in> set (map date_of_birth (rows ?df2))"
    unfolding dob_after_gender_steps by simp
  then obtain r2 where r2: "r2 \<in> set (rows ?df2)" "date_of_birth r2 = date_of_birth r"
    by auto
  have "r2\<lparr>date_of_birth := NaT\<rparr> \<in> set (rows ?df3)"
    using r2 nat col by (force simp: rows_clean_date_of_birth)
  then have "NaT \<in> set (map (\<lambda>r. to_datetime parse (date_of_birth r)) (rows ?df3))"
    by force
  then have "calculate_age now_age (map (\<lambda>r. to_datetime parse (date_of_birth r)) (rows ?df3))
      = Inl IntCastingNaNError"
    by (rule calculate_age_NaT)
  then show ?thesis
    using col by (simp add: clean_patients_data_def Let_def)
qed

text \<open>
  Claim C1, at a failing input. The claim: no exception leaves a cleaning call; a date of
  birth that does not parse is coerced to the missing marker and the row is then filtered.
  The code: on the patients set with the rows (P1, "1970-01-01") and (P2, "not-a-date"),
  \<open>clean_patients_data\<close> raises IntCastingNaNError, whatever the clock reads: the second
  row passes the future-date filter as NaT and \<open>calculate_age\<close> casts its NaN age to an
  integer.
\<close>

theorem clean_patients_data_unparsable_dob_raises:
  "clean_patients_data known_dates now_dob now_age patients_bad_dob new_cleaner
     = Inl IntCastingNaNError"
  by (rule clean_patients_data_raises
        [where r = "blank_row\<lparr>patient_id := Some ''P2'', date_of_birth := Text ''not-a-date''\<rparr>"])
     (simp_all add: patients_bad_dob_def has_column_def known_dates_def)

section \<open>Visits cleaning\<close>

lemma clean_visits_data_blocks:
  "clean_visits_data parse df self =
     (let out = visits_remove_duplicates (visits_length_of_stay
                  (visits_remove_reversed (visits_parse_dates parse df)))
      in (out, append_report ''visits'' (len df) (len out) self))"
  unfolding clean_visits_data_def visits_remove_duplicates_def visits_length_of_stay_def
    visits_remove_reversed_def visits_parse_dates_def Let_def
  by (rule refl)

lemma has_column_visits_parse_dates [simp]:
  "has_column c (visits_parse_dates parse df) = has_column c df"
  by (auto simp: visits_parse_dates_def Let_def)

lemma has_column_visits_remove_reversed [simp]:
  "has_column c (visits_remove_reversed df) = has_column c df"
  by (auto simp: visits_remove_reversed_def Let_def)

lemma has_column_visits_remove_duplicates [simp]:
  "has_column c (visits_remove_duplicates df) = has_column c df"
  by (auto simp: visits_remove_duplicates_def)


lemma rows_visits_remove_reversed:
  "rows (visits_remove_reversed df) =
     (if has_column ''admission_date'' df \<and> has_column ''discharge_date'' df
      then filter (\<lambda>r. \<not> dt_less (discharge_date r) (admission_date r)) (rows df)
      else rows df)"
  by (simp add: visits_remove_reversed_def Let_def rows_boolean_index select_map comp_def)

lemma rows_visits_length_of_stay:
  "rows (visits_length_of_stay df) =
     (if has_column ''admission_date'' df \<and> has_column ''discharge_date'' df
      then filter (\<lambda>r. \<not> (num_lt (length_of_stay r) MIN_LOS_DAYS
                           \<or> num_gt (length_of_stay r) MAX_LOS_DAYS))
             (map (\<lambda>r. r\<lparr>length_of_stay :=
                            dt_days (dt_sub (discharge_date r) (admission_date r))\<rparr>) (rows df))
      else rows df)"
  by (simp add: visits_length_of_stay_def Let_def rows_boolean_index rows_set_column_map
      select_map_map filter_map comp_def)

lemma rows_visits_remove_duplicates:
  "rows (visits_remove_duplicates df) =
     (if has_column ''visit_id'' df
      then select (map Not (duplicated (map visit_id (rows df)))) (rows df)
      else rows df)"
  by (simp add: visits_remove_duplicates_def rows_boolean_index)

lemma rows_clean_visits_data_subset:
  "set (rows (fst (clean_visits_data parse df self))) \<subseteq>
     set (rows (visits_length_of_stay (visits_remove_reversed (visits_parse_dates parse df))))"
  using drop_duplicates_subset [of "[]" visit_id]
  by (auto simp: clean_visits_data_blocks Let_def rows_visits_remove_duplicates duplicated_def)

text \<open>
  Claim C4, as amended. When the set has the columns \<open>admission_date\<close> and
  \<open>discharge_date\<close>, every row that \<open>clean_visits_data\<close> returns with both dates present
  has \<open>admission_date \<le> discharge_date\<close>, a \<open>length_of_stay\<close> equal to the whole-day
  difference of the two parsed dates, and \<open>0 \<le> length_of_stay \<le> 365\<close>.
\<close>

theorem clean_visits_data_rows_valid:
  assumes cols: "has_column ''admission_date'' df" "has_column ''discharge_date'' df"
    and r: "r \<in> set (rows (fst (clean_visits_data parse df self)))"
    and a: "admission_date r = Timestamp a"
    and d: "discharge_date r = Timestamp d"
  shows "a \<le> d \<and> length_of_stay r = Some ((d - a) div NS_PER_DAY)
         \<and> 0 \<le> (d - a) div NS_PER_DAY \<and> (d - a) div NS_PER_DAY \<le> 365"
proof -
  from r rows_clean_visits_data_subset
  have "r \<in> set (rows (visits_length_of_stay (visits_remove_reversed (visits_parse_dates parse df))))"
    by blast
  with cols obtain r0 where
    r0: "r0 \<in> set (rows (visits_remove_reversed (visits_parse_dates parse df)))"
    and eq: "r = r0\<lparr>length_of_stay := dt_days (dt_sub (discharge_date r0) (admission_date r0))\<rparr>"
    and los: "\<not> num_lt (length_of_stay r) MIN_LOS_DAYS" "\<not> num_gt (length_of_stay r) MAX_LOS_DAYS"
    by (auto simp: rows_visits_length_of_stay)
  from eq a d have dates: "admission_date r0 = Timestamp a" "discharge_date r0 = Timestamp d"
    by simp_all
  from r0 cols dates have "\<not> d < a"
    by (auto simp: rows_visits_remove_reversed)
  moreover from eq dates have stay: "length_of_stay r = Some ((d - a) div NS_PER_DAY)"
    by (simp add: dt_days_def)
  moreover from los stay have "0 \<le> (d - a) div NS_PER_DAY" "(d - a) div NS_PER_DAY \<le> 365"
    by (simp_all add: MIN_LOS_DAYS_def MAX_LOS_DAYS_def)
  ultimately show ?thesis by simp
qed

lemma clean_visits_three:
  "rows (fst (clean_visits_data Map.empty visits_three new_cleaner)) =
     [blank_row\<lparr>visit_id := Some ''V1'', admission_date := Timestamp 0,
                discharge_date := Timestamp 90000000000000, length_of_stay := Some 1\<rparr>]"
  by code_simp

theorem clean_visits_data_rows_valid_witness:
  "has_column ''admission_date'' visits_three \<and> has_column ''discharge_date'' visits_three \<and>
   blank_row\<lparr>visit_id := Some ''V1'', admission_date := Timestamp 0,
             discharge_date := Timestamp 90000000000000, length_of_stay := Some 1\<rparr>
     \<in> set (rows (fst (clean_visits_data Map.empty visits_three new_cleaner))) \<and>
   (0::int) \<le> 90000000000000 \<and>
   length_of_stay (blank_row\<lparr>visit_id := Some ''V1'', admission_date := Timestamp 0,
             discharge_date := Timestamp 90000000000000, length_of_stay := Some 1\<rparr>)
     = Some ((90000000000000 - 0) div NS_PER_DAY) \<and>
   0 \<le> (90000000000000 - 0) div NS_PER_DAY \<and> (90000000000000 - 0) div NS_PER_DAY \<le> 365"
proof -
  let ?r = "blank_row\<lparr>visit_id := Some ''V1'', admission_date := Timestamp 0,
             discharge_date := Timestamp 90000000000000, length_of_stay := Some 1\<rparr>"
  have c1: "has_column ''admission_date'' visits_three"
    by (simp add: has_column_def visits_three_def)
  have c2: "has_column ''discharge_date'' visits_three"
    by (simp add: has_column_def visits_three_def)
  have m: "?r \<in> set (rows (fst (clean_visits_data Map.empty visits_three new_cleaner)))"
    by (simp add: clean_visits_three)
  have a: "admission_date ?r = Timestamp 0" by simp
  have d: "discharge_date ?r = Timestamp 90000000000000" by simp
  from clean_visits_data_rows_valid [OF c1 c2 m a d] c1 c2 m show ?thesis by simp
qed

text \<open>
  Claim C4 as stated fails: a row whose admission date does not parse is returned, with the
  admission date missing (so that \<open>admission_date \<le> discharge_date\<close> does not hold of it) and
  with a missing \<open>length_of_stay\<close>.
\<close>

theorem clean_visits_data_keeps_unparsed_dates:
  "has_column ''admission_date'' visits_bad_admission \<and>
   has_column ''discharge_date'' visits_bad_admission \<and>
   map (\<lambda>r. (visit_id r, admission_date r, discharge_date r, length_of_stay r))
     (rows (fst (clean_visits_data known_dates visits_bad_admission new_cleaner)))
     = [(Some ''V1'', NaT, Timestamp 86400000000000, None)]"
  by code_simp







section \<open>Gender standardization\<close>









section \<open>Patients cleaning: what a pass returns\<close>















section \<open>Diagnoses cleaning\<close>

lemma clean_diagnoses_data_blocks:
  "clean_diagnoses_data df self =
     (let out = diagnoses_remove_duplicates (diagnoses_normalize_codes df)
      in (out, append_report ''diagnoses'' (len df) (len out) self))"
  unfolding clean_diagnoses_data_def diagnoses_remove_duplicates_def
    diagnoses_normalize_codes_def Let_def
  by (rule refl)


lemma rows_diagnoses_normalize_codes:
  "rows (diagnoses_normalize_codes df) =
     (if has_column ''icd_code'' df
      then map (\<lambda>r. r\<lparr>icd_code := Some (str_upper (str_strip (astype_str (icd_code r)))),
                       icd_code_valid :=
                         re_match ICD10_PATTERN (str_upper (str_strip (astype_str (icd_code r))))\<rparr>)
             (rows df)
      else rows df)"
  by (simp add: diagnoses_normalize_codes_def Let_def rows_set_column map2_map_map map2_map_same
      validate_icd10_code_def comp_def)

lemma rows_diagnoses_remove_duplicates:
  "rows (diagnoses_remove_duplicates df) =
     (if has_column ''visit_id'' df \<and> has_column ''icd_code'' df
      then select (map Not (duplicated (map (\<lambda>r. (visit_id r, icd_code r)) (rows df)))) (rows df)
      else rows df)"
  by (simp add: diagnoses_remove_duplicates_def rows_boolean_index)






text \<open>A second pass over a cleaned diagnoses set returns its rows unchanged.\<close>

lemma astype_str_Some [simp]: "astype_str (Some s) = s"
  by (simp add: astype_str_def)


section \<open>Medications cleaning\<close>


lemma has_column_medications_standardize_names [simp]:
  "has_column c (medications_standardize_names df) = has_column c df"
  by (auto simp: medications_standardize_names_def)

lemma has_column_medications_drop_missing [simp]:
  "has_column c (medications_drop_missing df) = has_column c df"
  by (simp add: medications_drop_missing_def dropna_def)

lemma has_column_medications_remove_duplicates [simp]:
  "has_column c (medications_remove_duplicates df) = has_column c df"
  by (auto simp: medications_remove_duplicates_def)





section \<open>Staff cleaning\<close>


lemma has_column_staff_standardize_names [simp]:
  "has_column c (staff_standardize_names df) = has_column c df"
  by (auto simp: staff_standardize_names_def)

lemma has_column_staff_remove_duplicates [simp]:
  "has_column c (staff_remove_duplicates df) = has_column c df"
  by (auto simp: staff_remove_duplicates_def)




section \<open>The ICD-10 validator\<close>

lemma rem_Cls_Cons:
  "rem (Cls C) (b, x # xs) = (if in_class C x then [(False, xs)] else [])"
  by simp

lemma rem_Cls_Nil: "rem (Cls C) (b, []) = []"
  by simp

lemma repeat_cls:
  "(q \<in> set (repeat (rem (Cls C)) m n (b, s))) =
     (\<exists>k. m \<le> k \<and> k \<le> n \<and> k \<le> length s \<and> list_all (in_class C) (take k s)
          \<and> q = (b \<and> k = 0, drop k s))"
proof (induction n arbitrary: m b s)
  case 0
  show ?case by auto
next
  case (Suc n)
  show ?case
  proof (cases s)
    case Nil
    then show ?thesis by auto
  next
    case (Cons x xs)
    show ?thesis
    proof (cases "in_class C x")
      case True
      have "(q \<in> set (repeat (rem (Cls C)) m (Suc n) (b, s))) =
            (q \<in> set (repeat (rem (Cls C)) (m - 1) n (False, xs)) \<or> (m = 0 \<and> q = (b, s)))"
        using True Cons by auto
      also have "\<dots> = ((\<exists>k. m - 1 \<le> k \<and> k \<le> n \<and> k \<le> length xs \<and> list_all (in_class C) (take k xs)
          \<and> q = (False, drop k xs)) \<or> (m = 0 \<and> q = (b, s)))"
        unfolding Suc.IH by simp
      also have "\<dots> = (\<exists>k. m \<le> k \<and> k \<le> Suc n \<and> k \<le> length s \<and> list_all (in_class C) (take k s)
          \<and> q = (b \<and> k = 0, drop k s))"
      proof
        assume "(\<exists>k. m - 1 \<le> k \<and> k \<le> n \<and> k \<le> length xs \<and> list_all (in_class C) (take k xs)
          \<and> q = (False, drop k xs)) \<or> (m = 0 \<and> q = (b, s))"
        then show "\<exists>k. m \<le> k \<and> k \<le> Suc n \<and> k \<le> length s \<and> list_all (in_class C) (take k s)
          \<and> q = (b \<and> k = 0, drop k s)"
        proof
          assume "\<exists>k. m - 1 \<le> k \<and> k \<le> n \<and> k \<le> length xs \<and> list_all (in_class C) (take k xs)
          \<and> q = (False, drop k xs)"
          then obtain k where "m - 1 \<le> k" "k \<le> n" "k \<le> length xs"
            "list_all (in_class C) (take k xs)" "q = (False, drop k xs)" by blast
          with True Cons show ?thesis by (intro exI [of _ "Suc k"]) auto
        next
          assume "m = 0 \<and> q = (b, s)"
          then show ?thesis by (intro exI [of _ 0]) auto
        qed
      next
        assume "\<exists>k. m \<le> k \<and> k \<le> Suc n \<and> k \<le> length s \<and> list_all (in_class C) (take k s)
          \<and> q = (b \<and> k = 0, drop k s)"
        then obtain k where k: "m \<le> k" "k \<le> Suc n" "k \<le> length s"
          "list_all (in_class C) (take k s)" "q = (b \<and> k = 0, drop k s)" by blast
        show "(\<exists>k. m - 1 \<le> k \<and> k \<le> n \<and> k \<le> length xs \<and> list_all (in_class C) (take k xs)
          \<and> q = (False, drop k xs)) \<or> (m = 0 \<and> q = (b, s))"
        proof (cases k)
          case 0
          with k show ?thesis by auto
        next
          case (Suc j)
          with k Cons have "m - 1 \<le> j \<and> j \<le> n \<and> j \<le> length xs \<and> list_all (in_class C) (take j xs)
            \<and> q = (False, drop j xs)" by auto
          then show ?thesis by blast
        qed
      qed
      finally show ?thesis .
    next
      case False
      have "(q \<in> set (repeat (rem (Cls C)) m (Suc n) (b, s))) = (m = 0 \<and> q = (b, s))"
        using False Cons by auto
      also have "\<dots> = (\<exists>k. m \<le> k \<and> k \<le> Suc n \<and> k \<le> length s \<and> list_all (in_class C) (take k s)
          \<and> q = (b \<and> k = 0, drop k s))"
      proof
        assume "m = 0 \<and> q = (b, s)"
        then show "\<exists>k. m \<le> k \<and> k \<le> Suc n \<and> k \<le> length s \<and> list_all (in_class C) (take k s)
          \<and> q = (b \<and> k = 0, drop k s)" by (intro exI [of _ 0]) auto
      next
        assume "\<exists>k. m \<le> k \<and> k \<le> Suc n \<and> k \<le> length s \<and> list_all (in_class C) (take k s)
          \<and> q = (b \<and> k = 0, drop k s)"
        then obtain k where k: "m \<le> k" "k \<le> Suc n" "k \<le> length s"
          "list_all (in_class C) (take k s)" "q = (b \<and> k = 0, drop k s)" by blast
        show "m = 0 \<and> q = (b, s)"
        proof (cases k)
          case 0
          with k show ?thesis by auto
        next
          case (Suc j)
          with k Cons False show ?thesis by auto
        qed
      qed
      finally show ?thesis .
    qed
  qed
qed


lemma alnum_not_newline: "alnum c \<Longrightarrow> c \<noteq> CHR 0x0A"
  by (auto simp: alnum_def in_class_def)

lemma rem_ext:
  "(\<exists>q\<in>set (rem (Opt (Seq (Chr CHR ''.'')
                   (Rep 1 4 (Cls [(CHR ''0'', CHR ''9''), (CHR ''A'', CHR ''Z'')]))))
               (False, ext)). rem Eol q \<noteq> []) =
   (ext = [] \<or> ext = [CHR 0x0A] \<or>
    (\<exists>tail k. ext = CHR ''.'' # tail \<and> 1 \<le> k \<and> k \<le> 4 \<and> k \<le> length tail \<and>
       list_all alnum (take k tail) \<and> (drop k tail = [] \<or> drop k tail = [CHR 0x0A])))"
proof (cases ext)
  case Nil
  then show ?thesis by simp
next
  case (Cons x tail)
  show ?thesis
  proof (cases "x = CHR ''.''")
    case True
    have "(\<exists>q\<in>set (rem (Opt (Seq (Chr CHR ''.'')
                   (Rep 1 4 (Cls [(CHR ''0'', CHR ''9''), (CHR ''A'', CHR ''Z'')]))))
               (False, ext)). rem Eol q \<noteq> []) =
       ((\<exists>q. q \<in> set (repeat (rem (Cls [(CHR ''0'', CHR ''9''), (CHR ''A'', CHR ''Z'')])) 1 4
                        (False, tail)) \<and> (snd q = [] \<or> snd q = [CHR 0x0A]))
        \<or> ext = [CHR 0x0A])"
      using True Cons by (auto simp: Bex_def)
    also have "\<dots> = ((\<exists>k. 1 \<le> k \<and> k \<le> 4 \<and> k \<le> length tail \<and>
       list_all alnum (take k tail) \<and> (drop k tail = [] \<or> drop k tail = [CHR 0x0A]))
        \<or> ext = [CHR 0x0A])"
    proof -
      have ex: "(\<exists>q. (\<exists>k. P k \<and> q = f k) \<and> Q q) = (\<exists>k. P k \<and> Q (f k))"
        for P :: "nat \<Rightarrow> bool" and f :: "nat \<Rightarrow> bool \<times> string" and Q
        by blast
      have "(\<exists>q. q \<in> set (repeat (rem (Cls [(CHR ''0'', CHR ''9''), (CHR ''A'', CHR ''Z'')])) 1 4
                        (False, tail)) \<and> (snd q = [] \<or> snd q = [CHR 0x0A])) =
            (\<exists>k. (1 \<le> k \<and> k \<le> 4 \<and> k \<le> length tail \<and> list_all alnum (take k tail)) \<and>
                 (snd (False \<and> k = 0, drop k tail) = []
                  \<or> snd (False \<and> k = 0, drop k tail) = [CHR 0x0A]))"
        unfolding repeat_cls alnum_def
        using ex [of "\<lambda>k. 1 \<le> k \<and> k \<le> 4 \<and> k \<le> length tail \<and>
                 list_all (in_class [(CHR ''0'', CHR ''9''), (CHR ''A'', CHR ''Z'')]) (take k tail)"
                "\<lambda>k. (False \<and> k = 0, drop k tail)"
                "\<lambda>q. snd q = [] \<or> snd q = [CHR 0x0A]"]
        by (simp only: conj_assoc)
      then show ?thesis by simp
    qed
    finally show ?thesis using True Cons by auto
  next
    case False
    with Cons show ?thesis by auto
  qed
qed

lemma extension_alt:
  "(ext = [] \<or> ext = [CHR 0x0A] \<or>
    (\<exists>tail k. ext = CHR ''.'' # tail \<and> 1 \<le> k \<and> k \<le> 4 \<and> k \<le> length tail \<and>
       list_all alnum (take k tail) \<and> (drop k tail = [] \<or> drop k tail = [CHR 0x0A]))) =
   (icd10_extension ext \<or> (ext \<noteq> [] \<and> last ext = CHR 0x0A \<and> icd10_extension (butlast ext)))"
  (is "?L = ?R")
proof
  assume ?L
  then consider "ext = []" | "ext = [CHR 0x0A]"
    | tail k where "ext = CHR ''.'' # tail" "1 \<le> k" "k \<le> 4" "k \<le> length tail"
        "list_all alnum (take k tail)" "drop k tail = []"
    | tail k where "ext = CHR ''.'' # tail" "1 \<le> k" "k \<le> 4" "k \<le> length tail"
        "list_all alnum (take k tail)" "drop k tail = [CHR 0x0A]"
    by blast
  then show ?R
  proof cases
    case 1
    then show ?thesis by (simp add: icd10_extension_def)
  next
    case 2
    then show ?thesis by (simp add: icd10_extension_def)
  next
    case 3
    then have "length tail = k" "take k tail = tail" by auto
    with 3 show ?thesis by (simp add: icd10_extension_def)
  next
    case 4
    have split: "tail = take k tail @ [CHR 0x0A]"
      using append_take_drop_id [of k tail] 4(6) by simp
    then have "butlast tail = take k tail" "last tail = CHR 0x0A" "tail \<noteq> []"
      by (metis butlast_snoc, metis last_snoc, auto)
    with 4 show ?thesis by (simp add: icd10_extension_def)
  qed
next
  assume ?R
  then consider "icd10_extension ext"
    | "ext \<noteq> []" "last ext = CHR 0x0A" "icd10_extension (butlast ext)"
    by blast
  then show ?L
  proof cases
    case 1
    show ?thesis
    proof (cases ext)
      case Nil
      then show ?thesis by simp
    next
      case (Cons d tail)
      with 1 have "d = CHR ''.''" "1 \<le> length tail" "length tail \<le> 4" "list_all alnum tail"
        by (simp_all add: icd10_extension_def)
      with Cons have "ext = CHR ''.'' # tail \<and> 1 \<le> length tail \<and> length tail \<le> 4
          \<and> length tail \<le> length tail \<and> list_all alnum (take (length tail) tail)
          \<and> (drop (length tail) tail = [] \<or> drop (length tail) tail = [CHR 0x0A])"
        by simp
      then show ?thesis by blast
    qed
  next
    case 2
    from 2(1,2) have ext: "ext = butlast ext @ [CHR 0x0A]"
      by (metis append_butlast_last_id)
    show ?thesis
    proof (cases "butlast ext")
      case Nil
      with ext show ?thesis by simp
    next
      case (Cons d core)
      with 2(3) have "d = CHR ''.''" "1 \<le> length core" "length core \<le> 4" "list_all alnum core"
        by (simp_all add: icd10_extension_def)
      with Cons ext have "ext = CHR ''.'' # (core @ [CHR 0x0A]) \<and> 1 \<le> length core
          \<and> length core \<le> 4 \<and> length core \<le> length (core @ [CHR 0x0A])
          \<and> list_all alnum (take (length core) (core @ [CHR 0x0A]))
          \<and> (drop (length core) (core @ [CHR 0x0A]) = []
              \<or> drop (length core) (core @ [CHR 0x0A]) = [CHR 0x0A])"
        by simp
      then show ?thesis by blast
    qed
  qed
qed


lemma concat_map_ne: "(concat (map f xs) \<noteq> []) = (\<exists>x\<in>set xs. f x \<noteq> [])"
  by (induction xs) auto

lemma rem_Seq_ne: "(rem (Seq r1 r2) p \<noteq> []) = (\<exists>q\<in>set (rem r1 p). rem r2 q \<noteq> [])"
  by (simp only: rem.simps(5) concat_map_ne)

lemma rem_Bol_Seq: "(rem (Seq Bol r) (True, s) \<noteq> []) = (rem r (True, s) \<noteq> [])"
  unfolding rem_Seq_ne by simp

lemma rem_Cls_Seq_Cons:
  "(rem (Seq (Cls C) r) (b, x # xs) \<noteq> []) = (in_class C x \<and> rem r (False, xs) \<noteq> [])"
  unfolding rem_Seq_ne by simp

lemma rem_Cls_Seq_Nil: "(rem (Seq (Cls C) r) (b, []) \<noteq> []) = False"
  unfolding rem_Seq_ne by simp

lemma re_match_ICD10_Cons:
  "re_match ICD10_PATTERN (c1 # c2 # c3 # ext) =
     (in_class [(CHR ''A'', CHR ''Z'')] c1 \<and> in_class [(CHR ''0'', CHR ''9'')] c2 \<and> alnum c3 \<and>
      (\<exists>q\<in>set (rem (Opt (Seq (Chr CHR ''.'')
                   (Rep 1 4 (Cls [(CHR ''0'', CHR ''9''), (CHR ''A'', CHR ''Z'')]))))
               (False, ext)). rem Eol q \<noteq> []))"
  unfolding re_match_def ICD10_PATTERN_def alnum_def rem_Bol_Seq rem_Cls_Seq_Cons
  by (simp only: rem_Seq_ne)

lemma re_match_ICD10_short:
  "\<not> re_match ICD10_PATTERN []" "\<not> re_match ICD10_PATTERN [c1]"
  "\<not> re_match ICD10_PATTERN [c1, c2]"
  unfolding re_match_def ICD10_PATTERN_def rem_Bol_Seq rem_Cls_Seq_Cons rem_Cls_Seq_Nil
  by simp_all

lemma re_match_ICD10:
  "re_match ICD10_PATTERN s =
     (icd10_format s \<or> (s \<noteq> [] \<and> last s = CHR 0x0A \<and> icd10_format (butlast s)))"
proof -
  consider "s = []" | c1 where "s = [c1]" | c1 c2 where "s = [c1, c2]"
    | c1 c2 c3 where "s = [c1, c2, c3]"
    | c1 c2 c3 e ext where "s = c1 # c2 # c3 # e # ext"
    by (cases s rule: list.exhaust [case_product list.exhaust list.exhaust list.exhaust])
      (metis list.exhaust)+
  then show ?thesis
  proof cases
    case 1
    then show ?thesis by (simp add: re_match_ICD10_short icd10_format_def)
  next
    case 2
    then show ?thesis by (simp add: re_match_ICD10_short icd10_format_def)
  next
    case 3
    then show ?thesis by (simp add: re_match_ICD10_short icd10_format_def)
  next
    case 4
    have "re_match ICD10_PATTERN s =
        (in_class [(CHR ''A'', CHR ''Z'')] c1 \<and> in_class [(CHR ''0'', CHR ''9'')] c2 \<and> alnum c3 \<and>
         (icd10_extension [] \<or> ([] \<noteq> ([]::string) \<and> last [] = CHR 0x0A \<and> icd10_extension (butlast []))))"
      unfolding 4 re_match_ICD10_Cons rem_ext extension_alt ..
    with 4 show ?thesis
      by (simp add: icd10_format_def icd10_extension_def)
  next
    case 5
    have "re_match ICD10_PATTERN s =
        (in_class [(CHR ''A'', CHR ''Z'')] c1 \<and> in_class [(CHR ''0'', CHR ''9'')] c2 \<and> alnum c3 \<and>
         (icd10_extension (e # ext) \<or> (e # ext \<noteq> [] \<and> last (e # ext) = CHR 0x0A
            \<and> icd10_extension (butlast (e # ext)))))"
      unfolding 5 re_match_ICD10_Cons rem_ext extension_alt ..
    with 5 show ?thesis
      by (auto simp: icd10_format_def)
  qed
qed

text \<open>
  Claim C6, as amended. The validator returns false for a missing code and otherwise
  matches the pattern against the code exactly as it is passed, neither trimmed nor
  upper-cased: a present code is valid if and only if it has the ICD-10 format, possibly
  followed by one newline (which \<^verbatim>\<open>$\<close> lets pass). "E11.9" and "A00" are valid, "11.9"
  and the missing code are not. The trimming and upper-casing happen in
  \<open>clean_diagnoses_data\<close>, before it calls the validator: every row it returns carries the
  trimmed, upper-cased text of an input code, and the flag \<open>icd_code_valid\<close> is the
  validator's answer on that text.
\<close>

theorem validate_icd10_code_as_passed:
  "\<not> validate_icd10_code None pattern
   \<and> validate_icd10_code (Some s) pattern = re_match pattern s
   \<and> validate_icd10_code (Some s) ICD10_PATTERN =
       (icd10_format s \<or> (s \<noteq> [] \<and> last s = CHR 0x0A \<and> icd10_format (butlast s)))
   \<and> validate_icd10_code (Some ''E11.9'') ICD10_PATTERN
   \<and> \<not> validate_icd10_code (Some ''11.9'') ICD10_PATTERN
   \<and> validate_icd10_code (Some ''A00'') ICD10_PATTERN
   \<and> (has_column ''icd_code'' df \<longrightarrow>
        (\<forall>r' \<in> set (rows (fst (clean_diagnoses_data df self))).
           (\<exists>r \<in> set (rows df).
              icd_code r' = Some (str_upper (str_strip (astype_str (icd_code r))))) \<and>
           icd_code_valid r' = validate_icd10_code (icd_code r') ICD10_PATTERN))"
proof -
  have v1: "validate_icd10_code (Some ''E11.9'') ICD10_PATTERN" by code_simp
  have v2: "\<not> validate_icd10_code (Some ''11.9'') ICD10_PATTERN" by code_simp
  have v3: "validate_icd10_code (Some ''A00'') ICD10_PATTERN" by code_simp
  have cleaner: "(\<exists>r \<in> set (rows df).
              icd_code r' = Some (str_upper (str_strip (astype_str (icd_code r))))) \<and>
           icd_code_valid r' = validate_icd10_code (icd_code r') ICD10_PATTERN"
    if col: "has_column ''icd_code'' df"
      and r': "r' \<in> set (rows (fst (clean_diagnoses_data df self)))" for r'
  proof -
    have "set (rows (fst (clean_diagnoses_data df self))) \<subseteq> set (rows (diagnoses_normalize_codes df))"
      using drop_duplicates_subset
        [of "[]" "\<lambda>r. (visit_id r, icd_code r)" "rows (diagnoses_normalize_codes df)"]
      by (auto simp: clean_diagnoses_data_blocks Let_def rows_diagnoses_remove_duplicates
          duplicated_def)
    with r' have "r' \<in> set (rows (diagnoses_normalize_codes df))" by blast
    with col show ?thesis
      by (auto simp: rows_diagnoses_normalize_codes validate_icd10_code_def)
  qed
  show ?thesis
    using v1 v2 v3 cleaner
    by (simp add: validate_icd10_code_def re_match_ICD10)
qed

theorem validate_icd10_code_as_passed_witness:
  "has_column ''icd_code'' diagnoses_four \<and>
   map (\<lambda>r. (icd_code r, icd_code_valid r))
     (rows (fst (clean_diagnoses_data diagnoses_four new_cleaner))) =
     [(Some ''E11.9'', True), (Some ''NAN'', False), (Some ''11.9'', False)] \<and>
   validate_icd10_code (Some ''E11.9'') ICD10_PATTERN \<and>
   \<not> validate_icd10_code (Some ''NAN'') ICD10_PATTERN \<and>
   \<not> validate_icd10_code (Some ''11.9'') ICD10_PATTERN"
proof -
  have c: "has_column ''icd_code'' diagnoses_four"
    by (simp add: has_column_def diagnoses_four_def)
  have out: "map (\<lambda>r. (icd_code r, icd_code_valid r))
     (rows (fst (clean_diagnoses_data diagnoses_four new_cleaner))) =
     [(Some ''E11.9'', True), (Some ''NAN'', False), (Some ''11.9'', False)]"
    by code_simp
  have nan: "\<not> validate_icd10_code (Some ''NAN'') ICD10_PATTERN" by code_simp
  from validate_icd10_code_as_passed [of ICD10_PATTERN "''E11.9''" diagnoses_four new_cleaner]
  have "validate_icd10_code (Some ''E11.9'') ICD10_PATTERN"
    and "\<not> validate_icd10_code (Some ''11.9'') ICD10_PATTERN"
    by blast+
  with c out nan show ?thesis by blast
qed

text \<open>
  Claim C6 as stated fails: the validator does not trim or upper-case its input. The code
  " e11.9 " is rejected, although its trimmed, upper-cased text "E11.9" matches the pattern.
\<close>

theorem validate_icd10_code_not_normalized:
  "\<not> validate_icd10_code (Some '' e11.9 '') ICD10_PATTERN \<and>
   re_match ICD10_PATTERN (str_upper (str_strip '' e11.9 ''))"
  by code_simp

section \<open>The validation report\<close>

lemma report_checks_total:
  "report_checks cs (ls, t, p) = (ls', t', p') \<Longrightarrow> t' = t + int (length cs)"
proof (induction cs arbitrary: ls t p)
  case Nil
  then show ?case by simp
next
  case (Cons c cs)
  from Cons.prems have
    "report_checks cs
       (ls @ [StatusLine (passed c) (test c), MessageLine (message c), Blank],
        t + 1, (if passed c then p + 1 else p)) = (ls', t', p')"
    by simp
  from Cons.IH [OF this] show ?case by simp
qed

lemma report_results_total:
  "report_results rs (ls, t, p) = (ls', t', p') \<Longrightarrow>
     t' = t + (\<Sum>r\<leftarrow>rs. int (length (checks r)))"
proof (induction rs arbitrary: ls t p)
  case Nil
  then show ?case by simp
next
  case (Cons r rs)
  obtain ls1 t1 p1 where
    step: "report_checks (checks r) (ls @ [DatasetLine (result_dataset r), Dashes], t, p)
             = (ls1, t1, p1)"
    by (cases "report_checks (checks r) (ls @ [DatasetLine (result_dataset r), Dashes], t, p)")
  from report_checks_total [OF step] have t1: "t1 = t + int (length (checks r))" .
  from Cons.prems step have "report_results rs (ls1, t1, p1) = (ls', t', p')" by simp
  from Cons.IH [OF this] t1 show ?case by simp
qed

text \<open>Without a single check the summary line divides by zero.\<close>

lemma no_checks_total:
  "list_all (\<lambda>r. checks r = []) rs \<Longrightarrow> (\<Sum>r\<leftarrow>rs. int (length (checks r))) = 0"
  by (induction rs) simp_all

lemma generate_validation_report_no_checks:
  assumes "list_all (\<lambda>r. checks r = []) (validation_results self)"
  shows "generate_validation_report self = Inl ZeroDivisionError"
proof -
  obtain ls t p where
    run: "report_results (validation_results self) ([Banner, Heading, Banner, Blank], 0, 0)
            = (ls, t, p)"
    by (cases "report_results (validation_results self) ([Banner, Heading, Banner, Blank], 0, 0)")
  from assms have "(\<Sum>r\<leftarrow>validation_results self. int (length (checks r))) = 0"
    by (rule no_checks_total)
  with report_results_total [OF run] have "t = 0" by simp
  with run show ?thesis
    by (simp add: generate_validation_report_def truediv_def)
qed

text \<open>
  Claim C2, at a failing input. The claim: with zero accumulated checks the report is
  generated without a division by zero, the summary line omitted or replaced. The code: on
  a validator that has run no check, \<open>generate_validation_report\<close> raises
  ZeroDivisionError while it formats the summary line.
\<close>

theorem generate_validation_report_zero_checks_raises:
  "generate_validation_report new_validator = Inl ZeroDivisionError"
  by (rule generate_validation_report_no_checks) (simp add: new_validator_def)

section \<open>Referential integrity\<close>





section \<open>Outlier detection\<close>




section \<open>The cleaning report\<close>

lemma select_length: "length (select flags xs) \<le> length xs"
proof -
  have "length (filter fst (zip flags xs)) \<le> length (zip flags xs)"
    by (rule length_filter_le)
  also have "\<dots> \<le> length xs" by simp
  finally show ?thesis by (simp add: select_def)
qed

lemma len_boolean_index: "len (boolean_index flags df) \<le> len df"
  by (simp add: len_def rows_boolean_index select_length)

lemma len_set_column_map: "len (set_column c setter (map g (rows df)) df) = len df"
  by (simp add: len_def rows_set_column_map)









section \<open>A second pass\<close>







end
